theory Spec2Isabelle
  imports Complex_Main "HOL-Library.Word" "HOL-Library.AList" "HOL-Library.Char_ord"
    "HOL-Library.List_Lexorder"
begin

unbundle bit_operations_syntax

section \<open>Values of the host language\<close>

text \<open>
  The map tool is JavaScript. A number is a finite value or one of the three special
  values of the number type. Finite numbers are exact rationals here: the rounding and the
  overflow of the 64-bit binary format are not part of the model, and neither is the
  negative zero.
\<close>

datatype jsnum = Fin rat | PosInf | NegInf | NaN

text \<open>
  A field of a parsed JSON object holds a scalar: \<open>null\<close>, a boolean, a number or a
  string. Reading a field gives \<open>jsval option\<close>, where \<open>None\<close> is the
  \<open>undefined\<close> of an absent property. An object is the list of its own properties in
  enumeration order.
\<close>

datatype jsval = JNull | JBool bool | JNum jsnum | JStr string

type_synonym obj = "(string \<times> jsval) list"

definition get_prop :: "obj \<Rightarrow> string \<Rightarrow> jsval option" where
  "get_prop ob k = map_of ob k"

text \<open>The assignment \<open>ob[k] = v\<close>: replaces the value in place, or appends a new property.\<close>

definition set_prop :: "string \<Rightarrow> jsval \<Rightarrow> obj \<Rightarrow> obj" where
  "set_prop k v ob = AList.update k v ob"

text \<open>Truthiness, as \<open>if (x)\<close>, \<open>x && y\<close> and \<open>x || y\<close> test it.\<close>

fun truthy :: "jsval option \<Rightarrow> bool" where
  "truthy None = False"
| "truthy (Some JNull) = False"
| "truthy (Some (JBool b)) = b"
| "truthy (Some (JNum (Fin r))) = (r \<noteq> 0)"
| "truthy (Some (JNum NaN)) = False"
| "truthy (Some (JNum PosInf)) = True"
| "truthy (Some (JNum NegInf)) = True"
| "truthy (Some (JStr s)) = (s \<noteq> [])"

definition js_or :: "jsval option \<Rightarrow> jsval option \<Rightarrow> jsval option" where
  "js_or a b = (if truthy a then a else b)"

text \<open>
  Two conversions of the language are taken as parameters, since their full definition is
  the language's and not this program's: the reading of a string as a number, and the
  printing of a number that is not an integer below \<open>10^21\<close>.
\<close>

record host =
  StringToNumber :: "string \<Rightarrow> jsnum"
  FractionToString :: "rat \<Rightarrow> string"

fun ToNumber :: "host \<Rightarrow> jsval option \<Rightarrow> jsnum" where
  "ToNumber h None = NaN"
| "ToNumber h (Some JNull) = Fin 0"
| "ToNumber h (Some (JBool b)) = Fin (if b then 1 else 0)"
| "ToNumber h (Some (JNum n)) = n"
| "ToNumber h (Some (JStr s)) = StringToNumber h s"

text \<open>
  The examples below read no string as a number and print no fraction; the host they are
  run on answers \<open>NaN\<close> and the empty string there.
\<close>

definition example_host :: host where
  "example_host = \<lparr>StringToNumber = (\<lambda>s. NaN), FractionToString = (\<lambda>r. [])\<rparr>"

fun js_div :: "jsnum \<Rightarrow> jsnum \<Rightarrow> jsnum" where
  "js_div NaN _ = NaN"
| "js_div _ NaN = NaN"
| "js_div (Fin x) (Fin y) =
     (if y \<noteq> 0 then Fin (x / y)
      else if x = 0 then NaN else if 0 < x then PosInf else NegInf)"
| "js_div (Fin x) _ = Fin 0"
| "js_div PosInf (Fin y) = (if 0 \<le> y then PosInf else NegInf)"
| "js_div NegInf (Fin y) = (if 0 \<le> y then NegInf else PosInf)"
| "js_div _ _ = NaN"

fun js_mul :: "jsnum \<Rightarrow> jsnum \<Rightarrow> jsnum" where
  "js_mul NaN _ = NaN"
| "js_mul _ NaN = NaN"
| "js_mul (Fin x) (Fin y) = Fin (x * y)"
| "js_mul (Fin x) PosInf = (if x = 0 then NaN else if 0 < x then PosInf else NegInf)"
| "js_mul (Fin x) NegInf = (if x = 0 then NaN else if 0 < x then NegInf else PosInf)"
| "js_mul PosInf (Fin y) = (if y = 0 then NaN else if 0 < y then PosInf else NegInf)"
| "js_mul NegInf (Fin y) = (if y = 0 then NaN else if 0 < y then NegInf else PosInf)"
| "js_mul PosInf PosInf = PosInf"
| "js_mul NegInf NegInf = PosInf"
| "js_mul _ _ = NegInf"

text \<open>
  \<open>parseFloat(x.toFixed(1))\<close>: \<open>toFixed\<close> takes the sign off, picks the integer
  \<open>n\<close> with \<open>n / 10\<close> nearest to the magnitude (the larger one on a tie) and prints
  it with one decimal; from \<open>10^21\<close> on, and for the special values, it prints the number
  itself. \<open>parseFloat\<close> reads the printed number back.
\<close>

fun toFixed1 :: "jsnum \<Rightarrow> jsnum" where
  "toFixed1 (Fin x) =
     (if 10 ^ 21 \<le> \<bar>x\<bar> then Fin x
      else Fin (sgn x * of_int \<lfloor>\<bar>x\<bar> * 10 + 1 / 2\<rfloor> / 10))"
| "toFixed1 n = n"

text \<open>\<open>Math.round\<close>: the nearest integer, the upper one on a tie.\<close>

definition Math_round :: "rat \<Rightarrow> int" where
  "Math_round x = \<lfloor>x + 1 / 2\<rfloor>"

section \<open>Numbers and strings\<close>

definition digit_char :: "nat \<Rightarrow> char" where
  "digit_char d = ''0123456789abcdefghijklmnopqrstuvwxyz'' ! d"

definition digit_of :: "char \<Rightarrow> nat option" where
  "digit_of c =
     (let n = (of_char c :: nat) in
      if 48 \<le> n \<and> n \<le> 57 then Some (n - 48)
      else if 97 \<le> n \<and> n \<le> 122 then Some (n - 87)
      else if 65 \<le> n \<and> n \<le> 90 then Some (n - 55)
      else None)"

text \<open>
  The digits of a natural number in a radix from 2 to 36, most significant first. Another
  radix is a \<open>RangeError\<close> of the language and is not asked for by the tool.
\<close>

function radix_digits :: "nat \<Rightarrow> nat \<Rightarrow> string" where
  "radix_digits R n =
     (if n < R \<or> R < 2 then [digit_char n]
      else radix_digits R (n div R) @ [digit_char (n mod R)])"
  by pat_completeness auto
termination
  by (relation "measure (\<lambda>(R, n). n)") auto

declare radix_digits.simps [simp del]

text \<open>\<open>n.toString(radix)\<close> for an integer \<open>n\<close>.\<close>

definition int_toString :: "nat \<Rightarrow> int \<Rightarrow> string" where
  "int_toString R n =
     (if n < 0 then CHR ''-'' # radix_digits R (nat (- n)) else radix_digits R (nat n))"

fun Number_toString :: "host \<Rightarrow> jsnum \<Rightarrow> string" where
  "Number_toString h (Fin r) =
     (if r = of_int \<lfloor>r\<rfloor> \<and> \<bar>r\<bar> < 10 ^ 21 then int_toString 10 \<lfloor>r\<rfloor>
      else FractionToString h r)"
| "Number_toString h NaN = ''NaN''"
| "Number_toString h PosInf = ''Infinity''"
| "Number_toString h NegInf = ''-Infinity''"

text \<open>\<open>String(v)\<close>, which is also how a value becomes a property key in \<open>ob[v]\<close>.\<close>

fun js_String :: "host \<Rightarrow> jsval option \<Rightarrow> string" where
  "js_String h None = ''undefined''"
| "js_String h (Some JNull) = ''null''"
| "js_String h (Some (JBool b)) = (if b then ''true'' else ''false'')"
| "js_String h (Some (JNum n)) = Number_toString h n"
| "js_String h (Some (JStr s)) = s"


text \<open>
  \<open>parseInt(s, R)\<close>: leading white space is skipped, a sign is read, for radix 16 a
  prefix \<open>0x\<close> is dropped, and the longest run of digits of the radix is the value;
  \<open>None\<close> is the \<open>NaN\<close> of a string with no such digit. Characters are bytes, so the
  white space is the one below 256.
\<close>

definition is_white :: "char \<Rightarrow> bool" where
  "is_white c = ((of_char c :: nat) \<in> {9, 10, 11, 12, 13, 32, 160})"

definition is_digit :: "nat \<Rightarrow> char \<Rightarrow> bool" where
  "is_digit R c = (case digit_of c of Some d \<Rightarrow> d < R | None \<Rightarrow> False)"

definition digits_value :: "nat \<Rightarrow> string \<Rightarrow> nat" where
  "digits_value R ds = foldl (\<lambda>a c. a * R + the (digit_of c)) 0 ds"

definition parseInt :: "string \<Rightarrow> nat \<Rightarrow> int option" where
  "parseInt s R =
     (let s1 = dropWhile is_white s;
          neg = (take 1 s1 = ''-'');
          s2 = (if take 1 s1 = ''-'' \<or> take 1 s1 = ''+'' then drop 1 s1 else s1);
          s3 = (if R = 16 \<and> (take 2 s2 = ''0x'' \<or> take 2 s2 = ''0X'') then drop 2 s2 else s2);
          ds = takeWhile (is_digit R) s3
      in if ds = [] then None
         else Some ((if neg then - 1 else 1) * int (digits_value R ds)))"

section \<open>The colour mapper\<close>

text \<open>
  The bitwise operators work on the 32-bit integer of their operand, which is 0 for
  \<open>NaN\<close>. \<open>(c >> k) & 0xff\<close> is one colour channel; \<open>n << k\<close> is read back as a
  signed 32-bit integer.
\<close>

definition ToInt32 :: "int option \<Rightarrow> 32 word" where
  "ToInt32 c = (case c of None \<Rightarrow> 0 | Some n \<Rightarrow> word_of_int n)"

definition channel :: "nat \<Rightarrow> int option \<Rightarrow> int" where
  "channel k c = uint (signed_drop_bit k (ToInt32 c) AND 0xff)"

definition shl32 :: "int \<Rightarrow> nat \<Rightarrow> int" where
  "shl32 n k = sint (push_bit k (word_of_int n :: 32 word))"

definition interpolateColor :: "string \<Rightarrow> string \<Rightarrow> rat \<Rightarrow> string" where
  "interpolateColor color1 color2 factor =
     (let c1 = parseInt (drop 1 color1) 16;
          c2 = parseInt (drop 1 color2) 16;
          r1 = channel 16 c1; g1 = channel 8 c1; b1 = channel 0 c1;
          r2 = channel 16 c2; g2 = channel 8 c2; b2 = channel 0 c2;
          r = Math_round (of_int r1 + factor * of_int (r2 - r1));
          g = Math_round (of_int g1 + factor * of_int (g2 - g1));
          b = Math_round (of_int b1 + factor * of_int (b2 - b1))
      in CHR ''#'' # drop 1 (int_toString 16 (shl32 1 24 + shl32 r 16 + shl32 g 8 + b)))"

text \<open>The colours among the settings of the tool, and their initial values.\<close>

record colorSettings =
  border :: string
  selected :: string
  dimmed :: string
  choroLow :: string
  choroHigh :: string

definition default_colors :: colorSettings where
  "default_colors =
     \<lparr>border = ''#999999'', selected = ''#627BC1'', dimmed = ''#CCCCCC'',
      choroLow = ''#eff3ff'', choroHigh = ''#08519c''\<rparr>"

text \<open>
  \<open>getColorForValue\<close> of the map tool. The value is a finite number or \<open>None\<close> for
  \<open>null\<close> and \<open>undefined\<close>; \<open>allValues\<close> are the non-null values of the metric.
  The numeric sort puts the minimum first and the maximum last.
\<close>

definition getColorForValue :: "colorSettings \<Rightarrow> rat option \<Rightarrow> string \<Rightarrow> rat list \<Rightarrow> string" where
  "getColorForValue cs v metric allValues =
     (case v of
        None \<Rightarrow> dimmed cs
      | Some x \<Rightarrow>
          if length allValues = 0 then dimmed cs
          else
            let sortedValues = sort allValues;
                mn = sortedValues ! 0;
                mx = sortedValues ! (length sortedValues - 1)
            in if mx = mn then interpolateColor (choroLow cs) (choroHigh cs) (1 / 2)
               else interpolateColor (choroLow cs) (choroHigh cs) ((x - mn) / (mx - mn)))"

text \<open>
  \<open>EconomicMap.getColorForValue\<close> of the class-based copy of the tool, whose
  \<open>interpolateColor\<close> computes the same expression as the one above.
\<close>

definition EconomicMap_getColorForValue :: "colorSettings \<Rightarrow> rat option \<Rightarrow> rat list \<Rightarrow> string" where
  "EconomicMap_getColorForValue cs v allValues =
     (case v of
        None \<Rightarrow> dimmed cs
      | Some x \<Rightarrow>
          if length allValues = 0 then dimmed cs
          else
            let sorted = sort allValues;
                mn = sorted ! 0;
                mx = sorted ! (length sorted - 1)
            in if mx = mn then dimmed cs
               else interpolateColor (choroLow cs) (choroHigh cs) ((x - mn) / (mx - mn)))"











section \<open>Region records and the choropleth\<close>

text \<open>
  A dataset of one geography level maps region keys to region records; the list is the
  enumeration order of \<open>Object.keys\<close> and \<open>Object.values\<close>.
\<close>

type_synonym dataset = "(string \<times> obj) list"





section \<open>Derived rates\<close>

text \<open>\<open>parseFloat(((a / b) * 100).toFixed(1))\<close>\<close>

definition derived_rate :: "host \<Rightarrow> jsval option \<Rightarrow> jsval option \<Rightarrow> jsval" where
  "derived_rate h a b = JNum (toFixed1 (js_mul (js_div (ToNumber h a) (ToNumber h b)) (Fin 100)))"

text \<open>The body of the loop over the records in \<open>loadEconomicData\<close> of the map tool.\<close>

definition derive_item :: "host \<Rightarrow> obj \<Rightarrow> obj" where
  "derive_item h item =
     (let item1 =
        (if get_prop item ''vacancyRate'' = None \<and> truthy (get_prop item ''vacantUnits'')
            \<and> truthy (get_prop item ''totalHousingUnits'')
         then set_prop ''vacancyRate''
                (derived_rate h (get_prop item ''vacantUnits'') (get_prop item ''totalHousingUnits'')) item
         else item)
      in if get_prop item1 ''homeownershipRate'' = None \<and> truthy (get_prop item1 ''ownerOccupied'')
            \<and> truthy (get_prop item1 ''occupiedUnits'')
         then set_prop ''homeownershipRate''
                (derived_rate h (get_prop item1 ''ownerOccupied'') (get_prop item1 ''occupiedUnits'')) item1
         else item1)"


text \<open>The body of the loop in \<open>calculateDerivedRates\<close> of the class-based copy.\<close>

definition calculateDerivedRates_item :: "host \<Rightarrow> obj \<Rightarrow> obj" where
  "calculateDerivedRates_item h item =
     (let item1 =
        (if truthy (get_prop item ''vacantUnits'') \<and> truthy (get_prop item ''totalHousingUnits'')
         then set_prop ''vacancyRate''
                (derived_rate h (get_prop item ''vacantUnits'') (get_prop item ''totalHousingUnits'')) item
         else item)
      in if truthy (get_prop item1 ''ownerOccupied'') \<and> truthy (get_prop item1 ''occupiedUnits'')
         then set_prop ''homeownershipRate''
                (derived_rate h (get_prop item1 ''ownerOccupied'') (get_prop item1 ''occupiedUnits'')) item1
         else item1)"

definition calculateDerivedRates :: "host \<Rightarrow> dataset \<Rightarrow> dataset" where
  "calculateDerivedRates h ds = map (\<lambda>(key, item). (key, calculateDerivedRates_item h item)) ds"


section \<open>Overlay sources\<close>

text \<open>
  The comparison \<open>a > b\<close>: two strings are compared by their characters, anything else
  as numbers, and a comparison with \<open>NaN\<close> is false. \<open>a === b\<close> is equality of
  scalars, except that \<open>NaN\<close> equals nothing.
\<close>

fun num_less :: "jsnum \<Rightarrow> jsnum \<Rightarrow> bool" where
  "num_less NaN _ = False"
| "num_less _ NaN = False"
| "num_less (Fin x) (Fin y) = (x < y)"
| "num_less (Fin x) PosInf = True"
| "num_less NegInf (Fin y) = True"
| "num_less NegInf PosInf = True"
| "num_less _ _ = False"

fun js_gt :: "host \<Rightarrow> jsval option \<Rightarrow> jsval option \<Rightarrow> bool" where
  "js_gt h (Some (JStr a)) (Some (JStr b)) = (b < a)"
| "js_gt h a b = num_less (ToNumber h b) (ToNumber h a)"

definition strict_eq :: "jsval option \<Rightarrow> jsval option \<Rightarrow> bool" where
  "strict_eq a b = (a = b \<and> a \<noteq> Some (JNum NaN))"

text \<open>
  An overlay table kept by the tool (\<open>redfinStateData\<close> and its siblings): an object
  from key to row.
\<close>

type_synonym index = "(string \<times> obj) list"

text \<open>
  The first loop over the rows of an aggregated source: \<open>latestPeriod\<close> starts as
  \<open>null\<close> and takes the period of a row when that period is truthy and greater than
  the one held, or when none is held yet.
\<close>

definition latest_step :: "host \<Rightarrow> obj \<Rightarrow> jsval \<Rightarrow> jsval" where
  "latest_step h row latestPeriod =
     (if truthy (get_prop row ''PERIOD_END'')
         \<and> (\<not> truthy (Some latestPeriod) \<or> js_gt h (get_prop row ''PERIOD_END'') (Some latestPeriod))
      then the (get_prop row ''PERIOD_END'') else latestPeriod)"

definition latest_period :: "host \<Rightarrow> obj list \<Rightarrow> jsval" where
  "latest_period h rows = fold (latest_step h) rows JNull"

text \<open>
  The second loop: a row of the latest period, of property type \<open>All Residential\<close> and
  with a truthy key field is stored under its key, replacing a row stored there before.
\<close>

definition selected_row :: "string \<Rightarrow> jsval \<Rightarrow> obj \<Rightarrow> bool" where
  "selected_row keyField latestPeriod row =
     (strict_eq (get_prop row ''PERIOD_END'') (Some latestPeriod)
      \<and> strict_eq (get_prop row ''PROPERTY_TYPE'') (Some (JStr ''All Residential''))
      \<and> truthy (get_prop row keyField))"

definition store_row :: "host \<Rightarrow> string \<Rightarrow> jsval \<Rightarrow> obj \<Rightarrow> index \<Rightarrow> index" where
  "store_row h keyField latestPeriod row idx =
     (if selected_row keyField latestPeriod row
      then AList.update (js_String h (get_prop row keyField)) row idx else idx)"

definition load_latest :: "host \<Rightarrow> string \<Rightarrow> obj list \<Rightarrow> index \<Rightarrow> index" where
  "load_latest h keyField rows idx =
     (let latestPeriod = latest_period h rows
      in fold (store_row h keyField latestPeriod) rows idx)"



text \<open>
  The selection rule in the words of the specification: of the rows of the category of
  interest, those of the most recent period found among these rows.
\<close>

definition period_strings :: "obj list \<Rightarrow> string list" where
  "period_strings rows =
     List.map_filter (\<lambda>row. case get_prop row ''PERIOD_END'' of Some (JStr p) \<Rightarrow> Some p | _ \<Rightarrow> None) rows"

definition spec_latest_snapshot :: "obj list \<Rightarrow> obj list" where
  "spec_latest_snapshot rows =
     (let of_category = filter (\<lambda>row. get_prop row ''PROPERTY_TYPE'' = Some (JStr ''All Residential'')) rows;
          latest = fold max (period_strings of_category) []
      in filter (\<lambda>row. get_prop row ''PERIOD_END'' = Some (JStr latest)) of_category)"

text \<open>
  The periods of a source that are non-empty strings, and the test that every period of
  the source is a string, \<open>null\<close> or absent.
\<close>

definition nonempty_periods :: "obj list \<Rightarrow> string list" where
  "nonempty_periods rows = filter (\<lambda>p. p \<noteq> []) (period_strings rows)"

fun string_or_missing :: "jsval option \<Rightarrow> bool" where
  "string_or_missing None = True"
| "string_or_missing (Some JNull) = True"
| "string_or_missing (Some (JStr p)) = True"
| "string_or_missing _ = False"

definition string_periods :: "obj list \<Rightarrow> bool" where
  "string_periods rows = list_all (\<lambda>row. string_or_missing (get_prop row ''PERIOD_END'')) rows"

section \<open>Merging the overlay into the region records\<close>

text \<open>\<open>a || b || c\<close>: the first truthy operand, or the last operand when none is.\<close>

fun first_truthy :: "jsval option list \<Rightarrow> jsval option" where
  "first_truthy [] = None"
| "first_truthy [a] = a"
| "first_truthy (a # bs) = js_or a (first_truthy bs)"

text \<open>\<open>Object.keys(row).forEach(key => { target[key] = row[key]; })\<close>\<close>

definition copy_props :: "obj \<Rightarrow> obj \<Rightarrow> obj" where
  "copy_props row target =
     fold (\<lambda>key t. case get_prop row key of Some v \<Rightarrow> set_prop key v t | None \<Rightarrow> t)
       (map fst row) target"

definition merge_record :: "host \<Rightarrow> string list \<Rightarrow> index \<Rightarrow> obj \<Rightarrow> obj" where
  "merge_record h keyFields idx region =
     (let code = first_truthy (map (get_prop region) keyFields)
      in if truthy code
         then (case map_of idx (js_String h code) of
                 Some row \<Rightarrow> copy_props row region
               | None \<Rightarrow> region)
         else region)"

definition merge_level :: "host \<Rightarrow> string list \<Rightarrow> index \<Rightarrow> dataset \<Rightarrow> dataset" where
  "merge_level h keyFields idx ds =
     (if length idx > 0 then map (\<lambda>(key, region). (key, merge_record h keyFields idx region)) ds
      else ds)"

text \<open>
  An overlay table keeps the join key of the records when a row that defines one of the
  join fields gives it a truthy value that names the row's own key.
\<close>

definition keeps_join_key :: "host \<Rightarrow> string list \<Rightarrow> index \<Rightarrow> bool" where
  "keeps_join_key h keyFields idx =
     list_all (\<lambda>(k, row). list_all (\<lambda>f. case get_prop row f of
          None \<Rightarrow> True
        | Some v \<Rightarrow> truthy (Some v) \<and> js_String h (Some v) = k) keyFields) idx"

section \<open>The loading sequence\<close>

datatype overlay_ui = Loading | Hidden | ErrorText

record app_state =
  states :: dataset
  counties :: dataset
  cbsas :: dataset
  redfinData :: index
  redfinStateData :: index
  redfinCountyData :: index
  redfinCbsaData :: index
  loadingOverlay :: overlay_ui


definition mergeRedfinIntoEconomicData :: "host \<Rightarrow> app_state \<Rightarrow> app_state" where
  "mergeRedfinIntoEconomicData h s =
     s\<lparr>states := merge_level h [''stateCode'', ''STATE_CODE''] (redfinStateData s) (states s),
       counties := merge_level h [''fips'', ''FIPS'', ''geoid'', ''GEOID''] (redfinCountyData s) (counties s),
       cbsas := merge_level h [''cbsaCode'', ''CBSA_CODE'', ''geoid'', ''GEOID''] (redfinCbsaData s) (cbsas s)\<rparr>"










section \<open>Region keys\<close>


section \<open>Facts about digits, strings and machine integers\<close>

lemma radix_digits_small: "n < R \<Longrightarrow> radix_digits R n = [digit_char n]"
  by (subst radix_digits.simps) simp

lemma radix_digits_step:
  "R \<le> n \<Longrightarrow> 2 \<le> R \<Longrightarrow> radix_digits R n = radix_digits R (n div R) @ [digit_char (n mod R)]"
  by (subst radix_digits.simps) simp

lemma floor_rat_numeral: "\<lfloor>numeral a / numeral b :: rat\<rfloor> = numeral a div numeral b"
  using floor_divide_of_int_eq [of "numeral a" "numeral b", where ?'a = rat] by simp

lemma floor_rat_neg_numeral: "\<lfloor>- (numeral a / numeral b) :: rat\<rfloor> = - numeral a div numeral b"
  using floor_divide_of_int_eq [of "- numeral a" "numeral b", where ?'a = rat] by simp

lemma floor_rat_one_numeral: "\<lfloor>1 / numeral b :: rat\<rfloor> = 1 div numeral b"
  using floor_divide_of_int_eq [of 1 "numeral b", where ?'a = rat] by simp

lemma floor_rat_neg_one_numeral: "\<lfloor>- (1 / numeral b) :: rat\<rfloor> = - 1 div numeral b"
  using floor_divide_of_int_eq [of "- 1" "numeral b", where ?'a = rat] by simp

lemmas color_eval = getColorForValue_def EconomicMap_getColorForValue_def interpolateColor_def
  default_colors_def parseInt_def Let_def is_white_def is_digit_def digit_of_def digits_value_def
  channel_def ToInt32_def shl32_def Math_round_def int_toString_def radix_digits_small
  radix_digits_step digit_char_def floor_rat_numeral floor_rat_neg_numeral
  floor_rat_one_numeral floor_rat_neg_one_numeral
























lemma sorted_ends:
  fixes ys :: "rat list"
  assumes "ys \<noteq> []" "sorted ys"
  shows "ys ! 0 = Min (set ys)" "ys ! (length ys - 1) = Max (set ys)"
proof -
  have "Min (set ys) = ys ! 0"
  proof (rule Min_eqI)
    show "ys ! 0 \<in> set ys" using assms(1) by simp
    fix y assume "y \<in> set ys"
    then obtain i where "i < length ys" "ys ! i = y" by (auto simp: in_set_conv_nth)
    then show "ys ! 0 \<le> y" using assms(2) sorted_nth_mono [of ys 0 i] by auto
  qed simp
  then show "ys ! 0 = Min (set ys)" by simp
  have "Max (set ys) = ys ! (length ys - 1)"
  proof (rule Max_eqI)
    show "ys ! (length ys - 1) \<in> set ys" using assms(1) by simp
    fix y assume "y \<in> set ys"
    then obtain i where "i < length ys" "ys ! i = y" by (auto simp: in_set_conv_nth)
    then show "y \<le> ys ! (length ys - 1)"
      using assms(2) sorted_nth_mono [of ys i "length ys - 1"] by auto
  qed simp
  then show "ys ! (length ys - 1) = Max (set ys)" by simp
qed

lemma sort_bounds:
  fixes xs :: "rat list"
  assumes "xs \<noteq> []"
  shows "sort xs ! 0 = Min (set xs)" "sort xs ! (length (sort xs) - 1) = Max (set xs)"
proof -
  have ne: "sort xs \<noteq> []" using assms by (metis length_sort length_0_conv)
  show "sort xs ! 0 = Min (set xs)"
    using sorted_ends(1) [OF ne] by simp
  show "sort xs ! (length (sort xs) - 1) = Max (set xs)"
    using sorted_ends(2) [OF ne] by simp
qed












section \<open>The colour mapper at its bounds\<close>

lemma getColorForValue_degenerate:
  assumes "allValues \<noteq> []" "Min (set allValues) = Max (set allValues)"
  shows "getColorForValue cs (Some x) metric allValues
           = interpolateColor (choroLow cs) (choroHigh cs) (1 / 2)"
  unfolding getColorForValue_def Let_def sort_bounds [OF assms(1)]
  using assms by simp

lemma EconomicMap_getColorForValue_degenerate:
  assumes "allValues \<noteq> []" "Min (set allValues) = Max (set allValues)"
  shows "EconomicMap_getColorForValue cs (Some x) allValues = dimmed cs"
  unfolding EconomicMap_getColorForValue_def Let_def sort_bounds [OF assms(1)]
  using assms by simp




text \<open>
  Claim C1. When all values of the metric are equal, every region with a value is to get
  the colour half-way along the gradient. \<open>getColorForValue\<close> of the map tool does
  so (\<open>getColorForValue_degenerate\<close>); \<open>EconomicMap.getColorForValue\<close> of the
  class-based copy returns the no-data colour instead
  (\<open>EconomicMap_getColorForValue_degenerate\<close>). With the default colours and the values
  5 and 5, the copy answers \<open>#CCCCCC\<close> where the half-way colour is \<open>#7ca2ce\<close>.
\<close>

theorem degenerate_bounds_class_copy:
  "EconomicMap_getColorForValue default_colors (Some 5) [5, 5] = ''#CCCCCC''
   \<and> interpolateColor (choroLow default_colors) (choroHigh default_colors) (1 / 2) = ''#7ca2ce''
   \<and> getColorForValue default_colors (Some 5) ''totalPopulation'' [5, 5] = ''#7ca2ce''"
  by (simp add: color_eval)






section \<open>Region keys of numbers and of strings\<close>










section \<open>Derived rates and the baseline\<close>

lemma get_set_prop:
  "get_prop (set_prop k v ob) k' = (if k' = k then Some v else get_prop ob k')"
  by (simp add: get_prop_def set_prop_def update_conv')

lemma derive_item_other_fields:
  assumes "k \<noteq> ''vacancyRate''" "k \<noteq> ''homeownershipRate''"
  shows "get_prop (derive_item h item) k = get_prop item k"
  using assms by (auto simp: derive_item_def Let_def get_set_prop)

lemma calculateDerivedRates_item_other_fields:
  assumes "k \<noteq> ''vacancyRate''" "k \<noteq> ''homeownershipRate''"
  shows "get_prop (calculateDerivedRates_item h item) k = get_prop item k"
  using assms by (auto simp: calculateDerivedRates_item_def Let_def get_set_prop)

lemma derive_item_vacancyRate:
  "get_prop (derive_item h item) ''vacancyRate'' =
     (if get_prop item ''vacancyRate'' = None \<and> truthy (get_prop item ''vacantUnits'')
         \<and> truthy (get_prop item ''totalHousingUnits'')
      then Some (derived_rate h (get_prop item ''vacantUnits'') (get_prop item ''totalHousingUnits''))
      else get_prop item ''vacancyRate'')"
  by (auto simp: derive_item_def Let_def get_set_prop)

lemma derive_item_homeownershipRate:
  "get_prop (derive_item h item) ''homeownershipRate'' =
     (if get_prop item ''homeownershipRate'' = None \<and> truthy (get_prop item ''ownerOccupied'')
         \<and> truthy (get_prop item ''occupiedUnits'')
      then Some (derived_rate h (get_prop item ''ownerOccupied'') (get_prop item ''occupiedUnits''))
      else get_prop item ''homeownershipRate'')"
  by (auto simp: derive_item_def Let_def get_set_prop)

lemma calculateDerivedRates_item_vacancyRate:
  "get_prop (calculateDerivedRates_item h item) ''vacancyRate'' =
     (if truthy (get_prop item ''vacantUnits'') \<and> truthy (get_prop item ''totalHousingUnits'')
      then Some (derived_rate h (get_prop item ''vacantUnits'') (get_prop item ''totalHousingUnits''))
      else get_prop item ''vacancyRate'')"
  by (auto simp: calculateDerivedRates_item_def Let_def get_set_prop)





lemma derive_item_keeps_supplied:
  "get_prop item ''vacancyRate'' \<noteq> None \<Longrightarrow>
     get_prop (derive_item h item) ''vacancyRate'' = get_prop item ''vacancyRate''"
  "get_prop item ''homeownershipRate'' \<noteq> None \<Longrightarrow>
     get_prop (derive_item h item) ''homeownershipRate'' = get_prop item ''homeownershipRate''"
  by (simp_all add: derive_item_vacancyRate derive_item_homeownershipRate)

text \<open>
  Claim C2. A rate that the baseline record already supplies is to be kept, and derived
  only when it is absent. The loop of \<open>loadEconomicData\<close> in the map tool tests
  \<open>item.vacancyRate === undefined\<close> first and does so
  (\<open>derive_item_keeps_supplied\<close>, \<open>derive_item_vacancyRate\<close>);
  \<open>calculateDerivedRates\<close> of the class-based copy has no such test and overwrites the
  supplied rate. For a record with rate 12.3, 1000 vacant units and 8000 housing units the
  copy stores 12.5, the map tool keeps 12.3.
\<close>

theorem derived_rate_overwrites_supplied_in_class_copy:
  "get_prop (calculateDerivedRates_item example_host
      [(''vacancyRate'', JNum (Fin (123 / 10))), (''vacantUnits'', JNum (Fin 1000)),
       (''totalHousingUnits'', JNum (Fin 8000))]) ''vacancyRate'' = Some (JNum (Fin (25 / 2)))
   \<and> get_prop (derive_item example_host
      [(''vacancyRate'', JNum (Fin (123 / 10))), (''vacantUnits'', JNum (Fin 1000)),
       (''totalHousingUnits'', JNum (Fin 8000))]) ''vacancyRate'' = Some (JNum (Fin (123 / 10)))"
  unfolding calculateDerivedRates_item_vacancyRate derive_item_vacancyRate
  by (simp add: get_prop_def derived_rate_def floor_rat_numeral)



section \<open>The latest snapshot of an overlay source\<close>

lemma find_snoc:
  "List.find P (xs @ [x]) = (case List.find P xs of Some y \<Rightarrow> Some y | None \<Rightarrow> if P x then Some x else None)"
  by (induction xs) auto

lemma find_Some_set: "List.find P xs = Some x \<Longrightarrow> x \<in> set xs \<and> P x"
  by (induction xs) (auto split: if_splits)

lemma map_of_store_row:
  "map_of (store_row h keyField L row idx) k =
     (if selected_row keyField L row \<and> js_String h (get_prop row keyField) = k then Some row
      else map_of idx k)"
  by (simp add: store_row_def update_conv')

lemma map_of_fold_store_row:
  "map_of (fold (store_row h keyField L) rows idx) k =
     (case List.find (\<lambda>row. selected_row keyField L row \<and> js_String h (get_prop row keyField) = k) (rev rows) of
        Some row \<Rightarrow> Some row
      | None \<Rightarrow> map_of idx k)"
proof (induction rows arbitrary: idx)
  case Nil
  then show ?case by simp
next
  case (Cons x xs)
  show ?case
    by (simp add: Cons.IH find_snoc map_of_store_row split: option.splits)
qed

lemma map_of_load_latest:
  "map_of (load_latest h keyField rows []) k =
     List.find (\<lambda>row. selected_row keyField (latest_period h rows) row
                   \<and> js_String h (get_prop row keyField) = k) (rev rows)"
  by (simp add: load_latest_def Let_def map_of_fold_store_row split: option.splits)

lemma distinct_fold_store_row:
  "distinct (map fst idx) \<Longrightarrow> distinct (map fst (fold (store_row h keyField L) rows idx))"
  by (induction rows arbitrary: idx) (simp_all add: store_row_def distinct_update)

lemma load_latest_rows:
  assumes "(k, row) \<in> set (load_latest h keyField rows [])"
  shows "row \<in> set rows" "selected_row keyField (latest_period h rows) row"
    "js_String h (get_prop row keyField) = k"
proof -
  have "distinct (map fst (load_latest h keyField rows []))"
    by (simp add: load_latest_def Let_def distinct_fold_store_row)
  with assms have "map_of (load_latest h keyField rows []) k = Some row" by simp
  then have f: "List.find (\<lambda>row. selected_row keyField (latest_period h rows) row
                   \<and> js_String h (get_prop row keyField) = k) (rev rows) = Some row"
    by (simp add: map_of_load_latest)
  then show "row \<in> set rows" "selected_row keyField (latest_period h rows) row"
    "js_String h (get_prop row keyField) = k"
    using find_Some_set [OF f] by simp_all
qed

lemma load_latest_complete:
  assumes "row \<in> set rows" "selected_row keyField (latest_period h rows) row"
  shows "\<exists>row'. map_of (load_latest h keyField rows []) (js_String h (get_prop row keyField)) = Some row'"
proof -
  let ?P = "\<lambda>r. selected_row keyField (latest_period h rows) r
              \<and> js_String h (get_prop r keyField) = js_String h (get_prop row keyField)"
  have "\<exists>x \<in> set (rev rows). ?P x" using assms by auto
  then have "List.find ?P (rev rows) \<noteq> None" by (simp only: find_None_iff) blast
  then show ?thesis by (auto simp: map_of_load_latest)
qed


lemma nonempty_periods_Nil: "nonempty_periods [] = []"
  by (simp add: nonempty_periods_def period_strings_def)

lemma nonempty_periods_Cons:
  "nonempty_periods (row # rows) =
     (case get_prop row ''PERIOD_END'' of
        Some (JStr p) \<Rightarrow> if p \<noteq> [] then p # nonempty_periods rows else nonempty_periods rows
      | _ \<Rightarrow> nonempty_periods rows)"
  by (simp add: nonempty_periods_def period_strings_def map_filter_simps
      split: option.splits jsval.splits)

lemma latest_step_string:
  assumes "string_or_missing (get_prop row ''PERIOD_END'')"
  shows "latest_step h row JNull =
           (case get_prop row ''PERIOD_END'' of
              Some (JStr p) \<Rightarrow> if p \<noteq> [] then JStr p else JNull | _ \<Rightarrow> JNull)"
    and "q \<noteq> [] \<Longrightarrow> latest_step h row (JStr q) =
           (case get_prop row ''PERIOD_END'' of
              Some (JStr p) \<Rightarrow> if p \<noteq> [] then JStr (max q p) else JStr q | _ \<Rightarrow> JStr q)"
  using assms
  by (cases "get_prop row ''PERIOD_END''" rule: string_or_missing.cases;
      auto simp: latest_step_def max_def)+

lemma latest_fold_string:
  assumes "string_periods rows" "q \<noteq> []"
  shows "fold (latest_step h) rows (JStr q) = JStr (fold max (nonempty_periods rows) q)"
  using assms
proof (induction rows arbitrary: q)
  case Nil
  then show ?case by (simp add: nonempty_periods_Nil)
next
  case (Cons row rows)
  then have r: "string_or_missing (get_prop row ''PERIOD_END'')" and rs: "string_periods rows"
    by (simp_all add: string_periods_def)
  have m: "max q p \<noteq> []" for p using Cons.prems(2) by (auto simp: max_def)
  show ?case
    using Cons.IH [OF rs] Cons.prems(2) m
    by (simp add: latest_step_string(2) [OF r] nonempty_periods_Cons max.commute
        split: option.splits jsval.splits)
qed

lemma latest_fold_null:
  assumes "string_periods rows"
  shows "fold (latest_step h) rows JNull =
     (case nonempty_periods rows of [] \<Rightarrow> JNull | p # ps \<Rightarrow> JStr (fold max ps p))"
  using assms
proof (induction rows)
  case Nil
  then show ?case by (simp add: nonempty_periods_Nil)
next
  case (Cons row rows)
  then have r: "string_or_missing (get_prop row ''PERIOD_END'')" and rs: "string_periods rows"
    by (simp_all add: string_periods_def)
  show ?case
    using Cons.IH [OF rs] latest_fold_string [OF rs, of _ h]
    by (simp add: latest_step_string(1) [OF r] nonempty_periods_Cons
        split: option.splits jsval.splits)
qed

lemma latest_period_string:
  assumes "string_periods rows"
  shows "nonempty_periods rows \<noteq> [] \<Longrightarrow>
           latest_period h rows = JStr (Max (set (nonempty_periods rows)))"
    and "nonempty_periods rows = [] \<Longrightarrow> latest_period h rows = JNull"
proof -
  show "nonempty_periods rows = [] \<Longrightarrow> latest_period h rows = JNull"
    using latest_fold_null [OF assms, of h] by (simp add: latest_period_def)
  assume "nonempty_periods rows \<noteq> []"
  then obtain p ps where e: "nonempty_periods rows = p # ps" by (cases "nonempty_periods rows") auto
  have "fold max ps p = Max (set (p # ps))" by (simp only: Max.set_eq_fold)
  then show "latest_period h rows = JStr (Max (set (nonempty_periods rows)))"
    using latest_fold_null [OF assms, of h] by (simp add: latest_period_def e)
qed


lemmas overlay_eval = load_latest_def latest_period_def latest_step_def store_row_def selected_row_def
  strict_eq_def get_prop_def Let_def

text \<open>
  Claim C4, as stated, fails: the latest period is taken over all rows of the source, not
  over the rows of the category of interest. When the most recent period has no row of
  property type \<open>All Residential\<close>, the tool keeps no row at all, where the rule of the
  specification keeps the \<open>All Residential\<close> rows of the most recent period that has
  any.
\<close>

theorem latest_period_over_all_categories_counterexample:
  "load_latest example_host ''STATE_CODE''
     [[(''STATE_CODE'', JStr ''CA''), (''PERIOD_END'', JStr ''2025-05-31''),
       (''PROPERTY_TYPE'', JStr ''All Residential'')],
      [(''STATE_CODE'', JStr ''CA''), (''PERIOD_END'', JStr ''2025-06-30''),
       (''PROPERTY_TYPE'', JStr ''Condo/Co-op'')]] [] = []
   \<and> spec_latest_snapshot
     [[(''STATE_CODE'', JStr ''CA''), (''PERIOD_END'', JStr ''2025-05-31''),
       (''PROPERTY_TYPE'', JStr ''All Residential'')],
      [(''STATE_CODE'', JStr ''CA''), (''PERIOD_END'', JStr ''2025-06-30''),
       (''PROPERTY_TYPE'', JStr ''Condo/Co-op'')]]
     = [[(''STATE_CODE'', JStr ''CA''), (''PERIOD_END'', JStr ''2025-05-31''),
         (''PROPERTY_TYPE'', JStr ''All Residential'')]]"
  by (simp add: overlay_eval spec_latest_snapshot_def period_strings_def map_filter_simps max_def)

text \<open>
  Claim C4, amended. For the state, county and metro sources the table built from the rows
  holds, under each key, the last row of the file that has that key (a truthy key field),
  the property type \<open>All Residential\<close>, and the latest period of the source; every row
  kept is such a row and every such row has its key in the table. The latest period of the
  source is the greatest non-empty period among all its rows, whatever their category (and
  \<open>null\<close> when there is none).
\<close>

theorem latest_snapshot_selection:
  "map_of (load_latest h keyField rows []) k
     = List.find (\<lambda>row. selected_row keyField (latest_period h rows) row
                     \<and> js_String h (get_prop row keyField) = k) (rev rows)
   \<and> (\<forall>(k', row) \<in> set (load_latest h keyField rows []).
         row \<in> set rows
         \<and> strict_eq (get_prop row ''PERIOD_END'') (Some (latest_period h rows))
         \<and> get_prop row ''PROPERTY_TYPE'' = Some (JStr ''All Residential'')
         \<and> truthy (get_prop row keyField)
         \<and> k' = js_String h (get_prop row keyField))
   \<and> (\<forall>row \<in> set rows. selected_row keyField (latest_period h rows) row \<longrightarrow>
         map_of (load_latest h keyField rows []) (js_String h (get_prop row keyField)) \<noteq> None)
   \<and> (string_periods rows \<and> nonempty_periods rows \<noteq> [] \<longrightarrow>
         latest_period h rows = JStr (Max (set (nonempty_periods rows))))
   \<and> (string_periods rows \<and> nonempty_periods rows = [] \<longrightarrow> latest_period h rows = JNull)"
proof -
  have "\<forall>(k', row) \<in> set (load_latest h keyField rows []).
         row \<in> set rows
         \<and> strict_eq (get_prop row ''PERIOD_END'') (Some (latest_period h rows))
         \<and> get_prop row ''PROPERTY_TYPE'' = Some (JStr ''All Residential'')
         \<and> truthy (get_prop row keyField)
         \<and> k' = js_String h (get_prop row keyField)"
    using load_latest_rows [of _ _ h keyField rows]
    by (auto simp: selected_row_def strict_eq_def)
  moreover have "\<forall>row \<in> set rows. selected_row keyField (latest_period h rows) row \<longrightarrow>
         map_of (load_latest h keyField rows []) (js_String h (get_prop row keyField)) \<noteq> None"
    using load_latest_complete [of _ rows keyField h] by auto
  ultimately show ?thesis
    using map_of_load_latest [of h keyField rows k] latest_period_string [of rows h]
    by blast
qed

text \<open>
  Witness for claim C4: two periods of California and a condominium row of Texas; the
  later \<open>All Residential\<close> row of California is the one kept.
\<close>

theorem latest_snapshot_selection_witness:
  "string_periods
     [[(''STATE_CODE'', JStr ''CA''), (''PERIOD_END'', JStr ''2025-05-31''),
       (''PROPERTY_TYPE'', JStr ''All Residential'')],
      [(''STATE_CODE'', JStr ''CA''), (''PERIOD_END'', JStr ''2025-06-30''),
       (''PROPERTY_TYPE'', JStr ''All Residential'')],
      [(''STATE_CODE'', JStr ''TX''), (''PERIOD_END'', JStr ''2025-06-30''),
       (''PROPERTY_TYPE'', JStr ''Condo/Co-op'')]]
   \<and> nonempty_periods
     [[(''STATE_CODE'', JStr ''CA''), (''PERIOD_END'', JStr ''2025-05-31''),
       (''PROPERTY_TYPE'', JStr ''All Residential'')],
      [(''STATE_CODE'', JStr ''CA''), (''PERIOD_END'', JStr ''2025-06-30''),
       (''PROPERTY_TYPE'', JStr ''All Residential'')],
      [(''STATE_CODE'', JStr ''TX''), (''PERIOD_END'', JStr ''2025-06-30''),
       (''PROPERTY_TYPE'', JStr ''Condo/Co-op'')]] \<noteq> []
   \<and> latest_period example_host
     [[(''STATE_CODE'', JStr ''CA''), (''PERIOD_END'', JStr ''2025-05-31''),
       (''PROPERTY_TYPE'', JStr ''All Residential'')],
      [(''STATE_CODE'', JStr ''CA''), (''PERIOD_END'', JStr ''2025-06-30''),
       (''PROPERTY_TYPE'', JStr ''All Residential'')],
      [(''STATE_CODE'', JStr ''TX''), (''PERIOD_END'', JStr ''2025-06-30''),
       (''PROPERTY_TYPE'', JStr ''Condo/Co-op'')]] = JStr ''2025-06-30''
   \<and> load_latest example_host ''STATE_CODE''
     [[(''STATE_CODE'', JStr ''CA''), (''PERIOD_END'', JStr ''2025-05-31''),
       (''PROPERTY_TYPE'', JStr ''All Residential'')],
      [(''STATE_CODE'', JStr ''CA''), (''PERIOD_END'', JStr ''2025-06-30''),
       (''PROPERTY_TYPE'', JStr ''All Residential'')],
      [(''STATE_CODE'', JStr ''TX''), (''PERIOD_END'', JStr ''2025-06-30''),
       (''PROPERTY_TYPE'', JStr ''Condo/Co-op'')]] []
     = [(''CA'', [(''STATE_CODE'', JStr ''CA''), (''PERIOD_END'', JStr ''2025-06-30''),
                  (''PROPERTY_TYPE'', JStr ''All Residential'')])]"
proof -
  let ?rows = "[[(''STATE_CODE'', JStr ''CA''), (''PERIOD_END'', JStr ''2025-05-31''),
       (''PROPERTY_TYPE'', JStr ''All Residential'')],
      [(''STATE_CODE'', JStr ''CA''), (''PERIOD_END'', JStr ''2025-06-30''),
       (''PROPERTY_TYPE'', JStr ''All Residential'')],
      [(''STATE_CODE'', JStr ''TX''), (''PERIOD_END'', JStr ''2025-06-30''),
       (''PROPERTY_TYPE'', JStr ''Condo/Co-op'')]]"
  have n: "nonempty_periods ?rows = [''2025-05-31'', ''2025-06-30'', ''2025-06-30'']"
    by (simp add: nonempty_periods_def period_strings_def map_filter_simps get_prop_def)
  have sp: "string_periods ?rows"
    by (simp add: string_periods_def get_prop_def)
  have mx: "Max (set [''2025-05-31'', ''2025-06-30'', ''2025-06-30'']) = ''2025-06-30''"
    by (simp add: max_def)
  from latest_snapshot_selection [of example_host "''STATE_CODE''" ?rows "''CA''"] sp n
  have l: "latest_period example_host ?rows = JStr ''2025-06-30''"
    by (simp add: mx)
  have "load_latest example_host ''STATE_CODE'' ?rows []
     = [(''CA'', [(''STATE_CODE'', JStr ''CA''), (''PERIOD_END'', JStr ''2025-06-30''),
                  (''PROPERTY_TYPE'', JStr ''All Residential'')])]"
    unfolding load_latest_def Let_def l
    by (simp add: store_row_def selected_row_def strict_eq_def get_prop_def)
  then show ?thesis
    using sp n l by simp
qed

section \<open>The merge of the overlay\<close>

lemma get_prop_fold_copy:
  "get_prop (fold (\<lambda>key t. case get_prop row key of Some v \<Rightarrow> set_prop key v t | None \<Rightarrow> t) ks target) f
     = (if f \<in> set ks \<and> get_prop row f \<noteq> None then get_prop row f else get_prop target f)"
  by (induction ks arbitrary: target) (auto simp: get_set_prop split: option.splits)

lemma get_prop_None_iff: "get_prop ob f = None \<longleftrightarrow> f \<notin> fst ` set ob"
  by (simp add: get_prop_def map_of_eq_None_iff)

lemma get_prop_copy_props:
  "get_prop (copy_props row target) f =
     (case get_prop row f of Some v \<Rightarrow> Some v | None \<Rightarrow> get_prop target f)"
  using get_prop_None_iff [of row f]
  by (auto simp: copy_props_def get_prop_fold_copy split: option.splits)

lemma set_prop_same: "get_prop ob k = Some v \<Longrightarrow> set_prop k v ob = ob"
  by (simp add: get_prop_def set_prop_def update_triv)

lemma fold_copy_fixed:
  assumes "\<forall>key \<in> set ks. \<forall>v. get_prop row key = Some v \<longrightarrow> get_prop target key = Some v"
  shows "fold (\<lambda>key t. case get_prop row key of Some v \<Rightarrow> set_prop key v t | None \<Rightarrow> t) ks target = target"
  using assms by (induction ks) (auto simp: set_prop_same split: option.splits)

lemma copy_props_idem: "copy_props row (copy_props row target) = copy_props row target"
  unfolding copy_props_def [of row "copy_props row target"]
  by (rule fold_copy_fixed) (simp add: get_prop_copy_props)

lemma first_truthy_Cons:
  "first_truthy (a # bs) = (if bs = [] then a else js_or a (first_truthy bs))"
  by (cases bs) simp_all

lemma join_key_kept:
  assumes "\<forall>f \<in> set keyFields. \<forall>v. get_prop row f = Some v \<longrightarrow> truthy (Some v) \<and> js_String h (Some v) = k"
    and "truthy (first_truthy (map (get_prop region) keyFields))"
    and "js_String h (first_truthy (map (get_prop region) keyFields)) = k"
  shows "truthy (first_truthy (map (get_prop (copy_props row region)) keyFields))
         \<and> js_String h (first_truthy (map (get_prop (copy_props row region)) keyFields)) = k"
  using assms
proof (induction keyFields)
  case Nil
  then show ?case by simp
next
  case (Cons f fs)
  show ?case
  proof (cases "get_prop row f")
    case (Some v)
    then have "truthy (Some v)" "js_String h (Some v) = k" using Cons.prems(1) by auto
    then show ?thesis
      by (simp add: first_truthy_Cons get_prop_copy_props Some js_or_def)
  next
    case None
    then have e: "get_prop (copy_props row region) f = get_prop region f"
      by (simp add: get_prop_copy_props)
    show ?thesis
    proof (cases "fs = [] \<or> truthy (get_prop region f)")
      case True
      then show ?thesis
        using Cons.prems(2,3) by (auto simp: first_truthy_Cons e js_or_def split: if_splits)
    next
      case False
      then have "truthy (first_truthy (map (get_prop region) fs))"
        "js_String h (first_truthy (map (get_prop region) fs)) = k"
        using Cons.prems(2,3) by (auto simp: first_truthy_Cons js_or_def split: if_splits)
      with Cons.IH Cons.prems(1)
      have "truthy (first_truthy (map (get_prop (copy_props row region)) fs))
         \<and> js_String h (first_truthy (map (get_prop (copy_props row region)) fs)) = k"
        by simp
      then show ?thesis
        using False by (simp add: first_truthy_Cons e js_or_def)
    qed
  qed
qed

lemma keeps_join_key_row:
  assumes "keeps_join_key h keyFields idx" "map_of idx k = Some row"
  shows "\<forall>f \<in> set keyFields. \<forall>v. get_prop row f = Some v \<longrightarrow> truthy (Some v) \<and> js_String h (Some v) = k"
proof -
  from assms(2) have "(k, row) \<in> set idx" by (rule map_of_SomeD)
  with assms(1) show ?thesis
    by (fastforce simp: keeps_join_key_def list_all_iff split: option.splits)
qed

lemma merge_record_idem:
  assumes "keeps_join_key h keyFields idx"
  shows "merge_record h keyFields idx (merge_record h keyFields idx region)
           = merge_record h keyFields idx region"
proof (cases "truthy (first_truthy (map (get_prop region) keyFields))")
  case False
  then show ?thesis by (simp add: merge_record_def Let_def)
next
  case True
  show ?thesis
  proof (cases "map_of idx (js_String h (first_truthy (map (get_prop region) keyFields)))")
    case None
    with True show ?thesis by (simp add: merge_record_def Let_def)
  next
    case (Some row)
    let ?k = "js_String h (first_truthy (map (get_prop region) keyFields))"
    have m: "merge_record h keyFields idx region = copy_props row region"
      using True Some by (simp add: merge_record_def Let_def)
    from join_key_kept [OF keeps_join_key_row [OF assms Some] True refl]
    have "merge_record h keyFields idx (copy_props row region) = copy_props row (copy_props row region)"
      using Some by (simp add: merge_record_def Let_def)
    then show ?thesis
      by (simp add: m copy_props_idem)
  qed
qed

lemma merge_level_idem:
  assumes "keeps_join_key h keyFields idx"
  shows "merge_level h keyFields idx (merge_level h keyFields idx ds) = merge_level h keyFields idx ds"
  by (simp add: merge_level_def merge_record_idem [OF assms] case_prod_unfold comp_def)

lemma merge_level_keys: "map fst (merge_level h keyFields idx ds) = map fst ds"
  by (simp add: merge_level_def case_prod_unfold comp_def)

lemma merge_record_no_match:
  "\<not> truthy (first_truthy (map (get_prop region) keyFields))
     \<or> map_of idx (js_String h (first_truthy (map (get_prop region) keyFields))) = None
   \<Longrightarrow> merge_record h keyFields idx region = region"
  by (auto simp: merge_record_def Let_def)

lemma merge_record_unmatched_row:
  assumes "\<not> (truthy (first_truthy (map (get_prop region) keyFields))
              \<and> js_String h (first_truthy (map (get_prop region) keyFields)) = k)"
  shows "merge_record h keyFields (AList.update k row idx) region = merge_record h keyFields idx region"
  using assms by (auto simp: merge_record_def Let_def update_conv')

lemma merge_level_unmatched_row:
  assumes "\<forall>(key, region) \<in> set ds.
             \<not> (truthy (first_truthy (map (get_prop region) keyFields))
                \<and> js_String h (first_truthy (map (get_prop region) keyFields)) = k)"
  shows "merge_level h keyFields (AList.update k row idx) ds = merge_level h keyFields idx ds"
proof -
  have e: "map (\<lambda>(key, region). (key, merge_record h keyFields (AList.update k row idx) region)) ds
      = map (\<lambda>(key, region). (key, merge_record h keyFields idx region)) ds"
    using assms by (intro map_cong refl) (auto simp: merge_record_unmatched_row)
  have n: "map (\<lambda>(key, region). (key, merge_record h keyFields [] region)) ds = ds"
    by (induction ds) (auto simp: merge_record_def Let_def)
  show ?thesis
  proof (cases idx)
    case Nil
    then show ?thesis using e n by (simp add: merge_level_def)
  next
    case (Cons a as)
    then show ?thesis using e by (simp add: merge_level_def)
  qed
qed


lemma keeps_join_key_load_latest:
  assumes "\<forall>row \<in> set rows. \<forall>f \<in> set keyFields. f \<noteq> keyField \<longrightarrow> get_prop row f = None"
  shows "keeps_join_key h keyFields (load_latest h keyField rows [])"
proof -
  have "case get_prop row f of None \<Rightarrow> True
        | Some v \<Rightarrow> truthy (Some v) \<and> js_String h (Some v) = k"
    if kr: "(k, row) \<in> set (load_latest h keyField rows [])" and f: "f \<in> set keyFields" for k row f
  proof (cases "f = keyField")
    case True
    from load_latest_rows(2,3) [OF kr]
    show ?thesis
      by (auto simp: True selected_row_def split: option.splits)
  next
    case False
    with assms load_latest_rows(1) [OF kr] f show ?thesis by simp
  qed
  then show ?thesis
    by (auto simp: keeps_join_key_def list_all_iff)
qed

lemmas merge_eval = merge_level_def merge_record_def copy_props_def set_prop_def get_prop_def
  js_or_def Let_def

text \<open>
  Claim C5. The merge walks over the region records and looks each one's code up in the
  overlay table, so an overlay row that no record asks for is never read: adding such a
  row to the table changes nothing in the merged records. The region keys of a level, in
  number and in order, are those from before the merge, at each of the three levels, and a
  record whose code finds no row is returned as it is.
\<close>

theorem unjoinable_rows_leave_records_alone:
  "map fst (merge_level h keyFields idx ds) = map fst ds
   \<and> ((\<forall>(key, region) \<in> set ds.
          \<not> (truthy (first_truthy (map (get_prop region) keyFields))
             \<and> js_String h (first_truthy (map (get_prop region) keyFields)) = k)) \<longrightarrow>
        merge_level h keyFields (AList.update k row idx) ds = merge_level h keyFields idx ds)
   \<and> ((\<not> truthy (first_truthy (map (get_prop region) keyFields))
         \<or> map_of idx (js_String h (first_truthy (map (get_prop region) keyFields))) = None) \<longrightarrow>
        merge_record h keyFields idx region = region)
   \<and> map fst (states (mergeRedfinIntoEconomicData h s)) = map fst (states s)
   \<and> map fst (counties (mergeRedfinIntoEconomicData h s)) = map fst (counties s)
   \<and> map fst (cbsas (mergeRedfinIntoEconomicData h s)) = map fst (cbsas s)"
  using merge_level_unmatched_row [of ds keyFields h k row idx]
    merge_record_no_match [of region keyFields idx h]
  by (simp add: merge_level_keys mergeRedfinIntoEconomicData_def)

text \<open>
  Witness for claim C5: Texas and California (enumerated in this order, the key
  \<open>48\<close> being an integer index), an overlay row for California, and a row with the
  code \<open>ZZ\<close> that no record carries. The record under \<open>06\<close> takes the sale price
  of the row for \<open>CA\<close> through its \<open>stateCode\<close>, and keeps what it had.
\<close>

theorem unjoinable_rows_leave_records_alone_witness:
  "merge_level example_host [''stateCode'', ''STATE_CODE'']
        (AList.update ''ZZ'' [(''STATE_CODE'', JStr ''ZZ''), (''MEDIAN_SALE_PRICE'', JNum (Fin 1))]
          [(''CA'', [(''STATE_CODE'', JStr ''CA''), (''MEDIAN_SALE_PRICE'', JNum (Fin 800000)),
                     (''PERIOD_END'', JStr ''2025-06-01''),
                     (''PROPERTY_TYPE'', JStr ''All Residential'')])])
        [(''48'', [(''stateCode'', JStr ''TX''), (''totalPopulation'', JNum (Fin 30000000))]),
         (''06'', [(''stateCode'', JStr ''CA''), (''totalPopulation'', JNum (Fin 39000000))])]
      = [(''48'', [(''stateCode'', JStr ''TX''), (''totalPopulation'', JNum (Fin 30000000))]),
         (''06'', [(''stateCode'', JStr ''CA''), (''totalPopulation'', JNum (Fin 39000000)),
                   (''STATE_CODE'', JStr ''CA''), (''MEDIAN_SALE_PRICE'', JNum (Fin 800000)),
                   (''PERIOD_END'', JStr ''2025-06-01''),
                   (''PROPERTY_TYPE'', JStr ''All Residential'')])]"
proof -
  let ?ds = "[(''48'', [(''stateCode'', JStr ''TX''), (''totalPopulation'', JNum (Fin 30000000))]),
              (''06'', [(''stateCode'', JStr ''CA''), (''totalPopulation'', JNum (Fin 39000000))])]"
  let ?idx = "[(''CA'', [(''STATE_CODE'', JStr ''CA''), (''MEDIAN_SALE_PRICE'', JNum (Fin 800000)),
                     (''PERIOD_END'', JStr ''2025-06-01''),
                     (''PROPERTY_TYPE'', JStr ''All Residential'')])]"
  let ?row = "[(''STATE_CODE'', JStr ''ZZ''), (''MEDIAN_SALE_PRICE'', JNum (Fin 1))]"
  let ?keys = "[''stateCode'', ''STATE_CODE'']"
  have hyp: "\<forall>(key, region) \<in> set ?ds.
      \<not> (truthy (first_truthy (map (get_prop region) ?keys))
         \<and> js_String example_host (first_truthy (map (get_prop region) ?keys)) = ''ZZ'')"
    by (simp add: get_prop_def js_or_def)
  have once: "merge_level example_host ?keys ?idx ?ds
      = [(''48'', [(''stateCode'', JStr ''TX''), (''totalPopulation'', JNum (Fin 30000000))]),
         (''06'', [(''stateCode'', JStr ''CA''), (''totalPopulation'', JNum (Fin 39000000)),
                   (''STATE_CODE'', JStr ''CA''), (''MEDIAN_SALE_PRICE'', JNum (Fin 800000)),
                   (''PERIOD_END'', JStr ''2025-06-01''),
                   (''PROPERTY_TYPE'', JStr ''All Residential'')])]"
    by (simp add: merge_eval)
  from unjoinable_rows_leave_records_alone [of example_host ?keys ?idx ?ds "''ZZ''" ?row] hyp
  have "merge_level example_host ?keys (AList.update ''ZZ'' ?row ?idx) ?ds
      = merge_level example_host ?keys ?idx ?ds"
    by blast
  then show ?thesis
    using once by simp
qed

text \<open>
  Claim C6, as stated, fails: the merge copies every field of the row into the record,
  also a field that the record is joined on. A row for \<open>CA\<close> that carries
  \<open>stateCode: "TX"\<close> turns the record of California into one that the next merge
  joins with the row of Texas, so the second merge changes \<open>HOMES_SOLD\<close> from 1 to 2.
\<close>

theorem merge_twice_counterexample:
  "merge_level example_host [''stateCode'', ''STATE_CODE'']
      (load_latest example_host ''STATE_CODE''
        [[(''STATE_CODE'', JStr ''CA''), (''stateCode'', JStr ''TX''), (''HOMES_SOLD'', JNum (Fin 1)),
          (''PERIOD_END'', JStr ''2025-06-01''), (''PROPERTY_TYPE'', JStr ''All Residential'')],
         [(''STATE_CODE'', JStr ''TX''), (''HOMES_SOLD'', JNum (Fin 2)),
          (''PERIOD_END'', JStr ''2025-06-01''), (''PROPERTY_TYPE'', JStr ''All Residential'')]] [])
      [(''06'', [(''stateCode'', JStr ''CA'')])]
     = [(''06'', [(''stateCode'', JStr ''TX''), (''STATE_CODE'', JStr ''CA''), (''HOMES_SOLD'', JNum (Fin 1)),
                  (''PERIOD_END'', JStr ''2025-06-01''), (''PROPERTY_TYPE'', JStr ''All Residential'')])]
   \<and> merge_level example_host [''stateCode'', ''STATE_CODE'']
      (load_latest example_host ''STATE_CODE''
        [[(''STATE_CODE'', JStr ''CA''), (''stateCode'', JStr ''TX''), (''HOMES_SOLD'', JNum (Fin 1)),
          (''PERIOD_END'', JStr ''2025-06-01''), (''PROPERTY_TYPE'', JStr ''All Residential'')],
         [(''STATE_CODE'', JStr ''TX''), (''HOMES_SOLD'', JNum (Fin 2)),
          (''PERIOD_END'', JStr ''2025-06-01''), (''PROPERTY_TYPE'', JStr ''All Residential'')]] [])
      (merge_level example_host [''stateCode'', ''STATE_CODE'']
        (load_latest example_host ''STATE_CODE''
          [[(''STATE_CODE'', JStr ''CA''), (''stateCode'', JStr ''TX''), (''HOMES_SOLD'', JNum (Fin 1)),
            (''PERIOD_END'', JStr ''2025-06-01''), (''PROPERTY_TYPE'', JStr ''All Residential'')],
           [(''STATE_CODE'', JStr ''TX''), (''HOMES_SOLD'', JNum (Fin 2)),
            (''PERIOD_END'', JStr ''2025-06-01''), (''PROPERTY_TYPE'', JStr ''All Residential'')]] [])
        [(''06'', [(''stateCode'', JStr ''CA'')])])
     = [(''06'', [(''stateCode'', JStr ''TX''), (''STATE_CODE'', JStr ''TX''), (''HOMES_SOLD'', JNum (Fin 2)),
                  (''PERIOD_END'', JStr ''2025-06-01''), (''PROPERTY_TYPE'', JStr ''All Residential'')])]"
proof -
  have l: "load_latest example_host ''STATE_CODE''
        [[(''STATE_CODE'', JStr ''CA''), (''stateCode'', JStr ''TX''), (''HOMES_SOLD'', JNum (Fin 1)),
          (''PERIOD_END'', JStr ''2025-06-01''), (''PROPERTY_TYPE'', JStr ''All Residential'')],
         [(''STATE_CODE'', JStr ''TX''), (''HOMES_SOLD'', JNum (Fin 2)),
          (''PERIOD_END'', JStr ''2025-06-01''), (''PROPERTY_TYPE'', JStr ''All Residential'')]] []
     = [(''CA'', [(''STATE_CODE'', JStr ''CA''), (''stateCode'', JStr ''TX''), (''HOMES_SOLD'', JNum (Fin 1)),
          (''PERIOD_END'', JStr ''2025-06-01''), (''PROPERTY_TYPE'', JStr ''All Residential'')]),
        (''TX'', [(''STATE_CODE'', JStr ''TX''), (''HOMES_SOLD'', JNum (Fin 2)),
          (''PERIOD_END'', JStr ''2025-06-01''), (''PROPERTY_TYPE'', JStr ''All Residential'')])]"
    by (simp add: overlay_eval)
  show ?thesis
    unfolding l by (simp add: merge_eval)
qed

text \<open>
  Claim C6, amended. Merging an overlay table twice gives the records that merging it once
  gives, provided that a row which defines a join field of the records gives it a truthy
  value naming the row's own key. A table built by the loader from rows that define no
  join field other than the key field of the source is such a table.
\<close>

theorem merge_idempotent_when_join_key_kept:
  "(keeps_join_key h keyFields idx \<longrightarrow>
      merge_level h keyFields idx (merge_level h keyFields idx ds) = merge_level h keyFields idx ds)
   \<and> (keeps_join_key h [''stateCode'', ''STATE_CODE''] (redfinStateData s)
       \<and> keeps_join_key h [''fips'', ''FIPS'', ''geoid'', ''GEOID''] (redfinCountyData s)
       \<and> keeps_join_key h [''cbsaCode'', ''CBSA_CODE'', ''geoid'', ''GEOID''] (redfinCbsaData s) \<longrightarrow>
      mergeRedfinIntoEconomicData h (mergeRedfinIntoEconomicData h s) = mergeRedfinIntoEconomicData h s)
   \<and> ((\<forall>row \<in> set rows. \<forall>f \<in> set keyFields. f \<noteq> keyField \<longrightarrow> get_prop row f = None) \<longrightarrow>
      keeps_join_key h keyFields (load_latest h keyField rows []))"
  by (simp add: merge_level_idem mergeRedfinIntoEconomicData_def keeps_join_key_load_latest)

text \<open>
  Witness for claim C6: the record of California and an overlay row for \<open>CA\<close>.
\<close>

theorem merge_idempotent_when_join_key_kept_witness:
  "keeps_join_key example_host [''stateCode'', ''STATE_CODE'']
      [(''CA'', [(''STATE_CODE'', JStr ''CA''), (''MEDIAN_SALE_PRICE'', JNum (Fin 800000))])]
   \<and> merge_level example_host [''stateCode'', ''STATE_CODE'']
        [(''CA'', [(''STATE_CODE'', JStr ''CA''), (''MEDIAN_SALE_PRICE'', JNum (Fin 800000))])]
        (merge_level example_host [''stateCode'', ''STATE_CODE'']
          [(''CA'', [(''STATE_CODE'', JStr ''CA''), (''MEDIAN_SALE_PRICE'', JNum (Fin 800000))])]
          [(''06'', [(''stateCode'', JStr ''CA''), (''MEDIAN_SALE_PRICE'', JNum (Fin 1))])])
      = [(''06'', [(''stateCode'', JStr ''CA''), (''MEDIAN_SALE_PRICE'', JNum (Fin 800000)),
                   (''STATE_CODE'', JStr ''CA'')])]"
proof -
  let ?idx = "[(''CA'', [(''STATE_CODE'', JStr ''CA''), (''MEDIAN_SALE_PRICE'', JNum (Fin 800000))])]"
  let ?ds = "[(''06'', [(''stateCode'', JStr ''CA''), (''MEDIAN_SALE_PRICE'', JNum (Fin 1))])]"
  have k: "keeps_join_key example_host [''stateCode'', ''STATE_CODE''] ?idx"
    by (simp add: keeps_join_key_def get_prop_def)
  have once: "merge_level example_host [''stateCode'', ''STATE_CODE''] ?idx ?ds
      = [(''06'', [(''stateCode'', JStr ''CA''), (''MEDIAN_SALE_PRICE'', JNum (Fin 800000)),
                   (''STATE_CODE'', JStr ''CA'')])]"
    by (simp add: merge_eval)
  from merge_idempotent_when_join_key_kept
    [of example_host "[''stateCode'', ''STATE_CODE'']" ?idx ?ds] k
  have "merge_level example_host [''stateCode'', ''STATE_CODE''] ?idx
          (merge_level example_host [''stateCode'', ''STATE_CODE''] ?idx ?ds)
        = merge_level example_host [''stateCode'', ''STATE_CODE''] ?idx ?ds"
    by blast
  then show ?thesis
    using k once by simp
qed

section \<open>Failures while loading\<close>









end
